theory Spec2Isabelle
  imports Complex_Main "HOL-Library.AList"
begin

section \<open>Data model of \<open>src/scraper.ts\<close>\<close>

text \<open>
  \<open>PartType\<close> is a TypeScript string-literal union; at run time it is a plain string, and
  the program casts command-line strings to it unchecked (line 235), so it is a string here.
  A \<open>Part\<close> is a JavaScript object used as a dictionary from field name to value; it is an
  association list, updated with \<open>AList.update\<close>, which like a JavaScript property
  assignment overwrites in place and appends a new key at the end.
  Strings are lists of 8-bit characters, read as the code units below 256.
\<close>

type_synonym PartType = string

datatype jsvalue = JNull | JStr string | JNum rat | JBool bool

type_synonym Part = "(string \<times> jsvalue) list"

text \<open>A thrown value: an \<open>Error\<close> object with its message. A call that can throw returns
  \<open>js_error + 'a\<close>, with \<open>Inl\<close> for the throw.\<close>

datatype js_error = Error string

text \<open>A JavaScript number that holds an integer or \<open>NaN\<close> (what \<open>parseInt\<close> returns).\<close>

datatype jsnum = NaN | Num int

text \<open>Every line the program prints, as one constructor per call site.\<close>

datatype log_event =
    StartScrape PartType                    \<comment> \<open>line 128, \<open>console.log\<close>\<close>
  | FoundPages jsnum PartType               \<comment> \<open>line 144, \<open>console.log\<close>\<close>
  | ProcessingPage nat jsnum PartType       \<comment> \<open>line 155, \<open>console.log\<close>\<close>
  | UnknownSpec string PartType             \<comment> \<open>line 182, \<open>console.warn\<close>\<close>
  | NoCustomSerializer string PartType      \<comment> \<open>line 199, \<open>console.warn\<close>\<close>
  | ErrorProcessingProduct string           \<comment> \<open>line 212, \<open>console.error\<close>\<close>
  | ReachedLimit int PartType               \<comment> \<open>line 217, \<open>console.log\<close>\<close>
  | FinishedScraping PartType               \<comment> \<open>line 230, \<open>console.log\<close>\<close>
  | AbortedUnexpectedly PartType js_error   \<comment> \<open>line 81, \<open>console.warn\<close>\<close>
  | InitialFetchFailed "nat option"         \<comment> \<open>line 99, \<open>console.error\<close>, with the HTTP status\<close>
  | InvalidLimit                            \<comment> \<open>line 245, \<open>console.warn\<close>\<close>

subsection \<open>The page, as the program reads it\<close>

text \<open>
  The browser is outside the program. Each read the program makes of it is a field holding
  what that read returns or throws.
\<close>

record spec_el =
  specLabel :: "js_error + string"
    \<comment> \<open>line 176: \<open>innerText\<close> of \<open>.specLabel\<close>, before \<open>trim\<close>\<close>
  specText :: "js_error + string option"
    \<comment> \<open>line 188: \<open>childNodes[1]?.textContent\<close>; \<open>None\<close> is \<open>null\<close> or \<open>undefined\<close>\<close>

record product_el =
  nameText :: "js_error + string"
    \<comment> \<open>line 161: \<open>innerText\<close> of the name paragraph, before \<open>replaceAll\<close>\<close>
  priceText :: "js_error + string option"
    \<comment> \<open>line 166: \<open>textContent\<close> of \<open>.td__price\<close>\<close>
  specEls :: "js_error + spec_el list"
    \<comment> \<open>line 173: \<open>$$('td.td__spec')\<close>\<close>

record site =
  setViewport :: "js_error + unit"
    \<comment> \<open>line 64\<close>
  paginationTask :: "js_error + string"
    \<comment> \<open>the \<open>getNumPages\<close> call of line 71: \<open>goto\<close>, \<open>waitForSelector\<close>, the last entry's text\<close>
  setRequestInterception :: "js_error + unit"
    \<comment> \<open>line 129\<close>
  paginationScrape :: "js_error + string"
    \<comment> \<open>the \<open>getNumPages\<close> call of line 143\<close>
  gotoPage :: "nat \<Rightarrow> js_error + unit"
    \<comment> \<open>lines 150-151: \<open>goto\<close> and \<open>waitForNetworkIdle\<close> for a page number\<close>
  productEls :: "nat \<Rightarrow> js_error + product_el list"
    \<comment> \<open>line 154: \<open>$$('.tr__product')\<close> on the page shown\<close>

subsection \<open>The imported modules\<close>

text \<open>
  \<open>serialization-map.json\<close> and \<open>serializers.ts\<close> are imported by the program (lines 7-12)
  and are parameters here: the table \<open>smap\<close> (called \<open>map\<close> in the source), keyed by endpoint
  and then by label, with entries (field name, serialization type), and the three imports of
  \<open>serializers.ts\<close>, each of which may throw.
  \<open>smap E endpoint\<close> is the section \<open>map[endpoint]\<close> evaluates to, and \<open>None\<close> when it
  evaluates to \<open>undefined\<close>; the function it holds gives the section's own entries. The
  endpoints and the output field names of the table are taken not to be names that every
  object inherits, so that the lookups by endpoint and by field name (lines 179, 193-203
  and 195) find own entries only. The lookup by label is by a string read from the page and
  is modelled with what it inherits, see \<open>get_mapped\<close>.
\<close>

record env =
  smap :: "PartType \<Rightarrow> (string \<Rightarrow> (string \<times> string) option) option"
  serializeNumber :: "string \<Rightarrow> js_error + jsvalue"
  genericSerialize :: "string \<Rightarrow> string \<Rightarrow> js_error + jsvalue"
  customSerializers :: "PartType \<Rightarrow> (string \<Rightarrow> (string \<Rightarrow> js_error + jsvalue) option) option"

section \<open>String primitives\<close>

text \<open>The white space and line terminators \<open>String.prototype.trim\<close> and \<open>parseInt\<close> strip,
  among the code units below 256: TAB, LF, VT, FF, CR, SP and NBSP.\<close>

definition is_js_space :: "char \<Rightarrow> bool" where
  "is_js_space c = (of_char c \<in> {9, 10, 11, 12, 13, 32, 160 :: nat})"

definition js_trim :: "string \<Rightarrow> string" where
  "js_trim s = rev (dropWhile is_js_space (rev (dropWhile is_js_space s)))"

text \<open>Line 163: \<open>replaceAll('\n', ' ')\<close>.\<close>

definition replaceAll_nl :: "string \<Rightarrow> string" where
  "replaceAll_nl s = map (\<lambda>c. if c = CHR 0x0A then CHR '' '' else c) s"

text \<open>The value of a digit in a radix, for \<open>parseInt\<close>.\<close>

definition digit_val :: "nat \<Rightarrow> char \<Rightarrow> nat option" where
  "digit_val radix c =
     (let n = (of_char c :: nat);
          v = (if 48 \<le> n \<and> n \<le> 57 then Some (n - 48)
               else if 97 \<le> n \<and> n \<le> 102 then Some (n - 87)
               else if 65 \<le> n \<and> n \<le> 70 then Some (n - 55)
               else None)
      in case v of None \<Rightarrow> None | Some d \<Rightarrow> if d < radix then Some d else None)"

text \<open>
  \<open>parseInt(s)\<close> with no radix: leading white space is skipped, then an optional sign, then
  \<open>0x\<close> or \<open>0X\<close> selects radix 16, then the longest run of digits is read; no digit gives
  \<open>NaN\<close>. The result is an integer here (a double in JavaScript, exact below \<open>2^53\<close>).
\<close>

definition js_parseInt :: "string \<Rightarrow> jsnum" where
  "js_parseInt s =
     (let t = dropWhile is_js_space s;
          neg = (case t of [] \<Rightarrow> False | c # _ \<Rightarrow> c = CHR ''-'');
          u = (case t of [] \<Rightarrow> [] | c # r \<Rightarrow> if c = CHR ''-'' \<or> c = CHR ''+'' then r else t);
          hex = (case u of a # b # _ \<Rightarrow> a = CHR ''0'' \<and> (b = CHR ''x'' \<or> b = CHR ''X'') | _ \<Rightarrow> False);
          radix = (if hex then 16 else 10);
          w = (if hex then drop 2 u else u);
          ds = takeWhile (\<lambda>c. digit_val radix c \<noteq> None) w;
          n = foldl (\<lambda>a c. a * radix + (case digit_val radix c of Some d \<Rightarrow> d | None \<Rightarrow> 0)) 0 ds
      in if ds = [] then NaN else Num (if neg then - int n else int n))"

section \<open>Module level: arguments and the limit (lines 16-44 and 233-247)\<close>

definition BASE_URL :: string where
  "BASE_URL = ''https://pcpartpicker.com/products''"

definition STAGING_DIRECTORY :: string where
  "STAGING_DIRECTORY = ''data-staging''"

definition ALL_ENDPOINTS :: "PartType list" where
  "ALL_ENDPOINTS =
     [''cpu'', ''cpu-cooler'', ''motherboard'', ''memory'', ''internal-hard-drive'',
      ''video-card'', ''case'', ''power-supply'', ''os'', ''monitor'', ''sound-card'',
      ''wired-network-card'', ''wireless-network-card'', ''headphones'', ''keyboard'',
      ''mouse'', ''speakers'', ''webcam'', ''case-accessory'', ''case-fan'',
      ''fan-controller'', ''thermal-paste'', ''external-hard-drive'', ''optical-drive'',
      ''ups'']"

text \<open>Line 233: \<open>process.argv.slice(2)\<close>.\<close>

definition inputEndpoints :: "string list \<Rightarrow> string list" where
  "inputEndpoints argv = drop 2 argv"

text \<open>Lines 234-236.\<close>

definition endpointsToScrape :: "string list \<Rightarrow> PartType list" where
  "endpointsToScrape argv =
     (if length (inputEndpoints argv) = 0 then ALL_ENDPOINTS else inputEndpoints argv)"

text \<open>\<open>Array.prototype.indexOf\<close>: the first index of the element, or \<open>-1\<close>.\<close>

fun indexOf :: "'a list \<Rightarrow> 'a \<Rightarrow> int" where
  "indexOf [] x = - 1"
| "indexOf (y # ys) x = (if y = x then 0 else (let i = indexOf ys x in if i = - 1 then - 1 else i + 1))"

text \<open>
  Lines 238-247. The limit is \<open>None\<close> for \<open>Infinity\<close>. The second component is what the
  block prints.
\<close>

definition limit_of :: "string list \<Rightarrow> int option \<times> log_event list" where
  "limit_of argv =
     (let inp = inputEndpoints argv;
          limitIndex = indexOf inp ''-n''
      in if limitIndex = - 1 then (None, [])
         else if length inp \<le> nat (limitIndex + 1) then (None, [])
         else if inp ! nat (limitIndex + 1) = [] then (None, [])
         else (case js_parseInt (inp ! nat (limitIndex + 1)) of
                 Num limitValue \<Rightarrow> (Some limitValue, [])
               | NaN \<Rightarrow> (None, [InvalidLimit])))"

definition limit :: "string list \<Rightarrow> int option" where
  "limit argv = fst (limit_of argv)"

text \<open>The test \<open>pageProducts.length >= limit\<close> of lines 216 and 225.\<close>

fun limit_reached :: "int option \<Rightarrow> nat \<Rightarrow> bool" where
  "limit_reached None n = False"
| "limit_reached (Some k) n = (k \<le> int n)"

section \<open>The extractor (lines 116-231)\<close>

text \<open>
  Every function returns what it printed, in order, next to its result: the console is only
  written to.
\<close>

text \<open>\<open>getNumPages\<close>, lines 116-125, on what the pagination control reads as.\<close>

definition getNumPages :: "js_error + string \<Rightarrow> js_error + jsnum" where
  "getNumPages pagination =
     (case pagination of Inl e \<Rightarrow> Inl e | Inr innerText \<Rightarrow> Inr (js_parseInt innerText))"

text \<open>\<open>customSerializers[endpoint]?.[snakeSpecName]\<close>, line 195.\<close>

definition lookup_custom :: "env \<Rightarrow> PartType \<Rightarrow> string \<Rightarrow> (string \<Rightarrow> js_error + jsvalue) option" where
  "lookup_custom E endpoint snakeSpecName =
     (case customSerializers E endpoint of None \<Rightarrow> None | Some reg \<Rightarrow> reg snakeSpecName)"

text \<open>The assignment \<open>serialized[key] = value\<close>, where computing the value may throw.\<close>

definition assign :: "string \<Rightarrow> js_error + jsvalue \<Rightarrow> Part \<Rightarrow> js_error + Part" where
  "assign key r serialized =
     (case r of Inl e \<Rightarrow> Inl e | Inr v \<Rightarrow> Inr (AList.update key v serialized))"

text \<open>
  What a property read \<open>object[name]\<close> finds on a plain object: nothing (\<open>undefined\<close>),
  an own entry, or a property inherited from \<open>Object.prototype\<close>.
\<close>

datatype 'a js_prop = Undefined | Inherited | Own 'a

text \<open>
  The property names of \<open>Object.prototype\<close>, which every section of the table inherits
  (the table is parsed from JSON). Each is a function, but \<open>__proto__\<close>, which reads as
  \<open>Object.prototype\<close> itself; none is \<open>undefined\<close> and none is iterable.
\<close>

definition Object_prototype_names :: "string list" where
  "Object_prototype_names =
     [''constructor'', ''__defineGetter__'', ''__defineSetter__'', ''hasOwnProperty'',
      ''__lookupGetter__'', ''__lookupSetter__'', ''isPrototypeOf'', ''propertyIsEnumerable'',
      ''toString'', ''valueOf'', ''__proto__'', ''toLocaleString'']"

text \<open>Line 179, \<open>map[endpoint][specName]\<close>, on the section of the endpoint: an own entry
  comes first, then the prototype chain.\<close>

definition get_mapped :: "(string \<Rightarrow> (string \<times> string) option) \<Rightarrow> string \<Rightarrow> (string \<times> string) js_prop" where
  "get_mapped tbl specName =
     (case tbl specName of
        Some mapped \<Rightarrow> Own mapped
      | None \<Rightarrow> if specName \<in> set Object_prototype_names then Inherited else Undefined)"

text \<open>
  The body of the loop over \<open>specs\<close>, lines 176-207. \<open>map[endpoint][specName]\<close> throws a
  \<open>TypeError\<close> when the table has no section for the endpoint. When \<open>mapped\<close> is an
  inherited property, the test of line 181 is false and the destructuring of line 186
  throws a \<open>TypeError\<close>, since \<open>mapped\<close> is not iterable.
\<close>

definition scrape_spec :: "env \<Rightarrow> PartType \<Rightarrow> spec_el \<Rightarrow> Part \<Rightarrow> log_event list \<times> (js_error + Part)" where
  "scrape_spec E endpoint spec serialized =
     (case specLabel spec of
        Inl e \<Rightarrow> ([], Inl e)
      | Inr innerText \<Rightarrow>
          (case smap E endpoint of
             None \<Rightarrow> ([], Inl (Error ''TypeError''))
           | Some tbl \<Rightarrow>
               (case get_mapped tbl (js_trim innerText) of
                  Undefined \<Rightarrow> ([UnknownSpec (js_trim innerText) endpoint], Inr serialized)
                | Inherited \<Rightarrow> ([], Inl (Error ''mapped is not iterable''))
                | Own (snakeSpecName, mappedSpecSerializationType) \<Rightarrow>
                    (case specText spec of
                       Inl e \<Rightarrow> ([], Inl e)
                     | Inr None \<Rightarrow> ([], Inr (AList.update snakeSpecName JNull serialized))
                     | Inr (Some specValue) \<Rightarrow>
                         if js_trim specValue = [] then
                           ([], Inr (AList.update snakeSpecName JNull serialized))
                         else if mappedSpecSerializationType = ''custom'' then
                           (case lookup_custom E endpoint snakeSpecName of
                              Some customSerializer \<Rightarrow>
                                ([], assign snakeSpecName (customSerializer specValue) serialized)
                            | None \<Rightarrow>
                                ([NoCustomSerializer snakeSpecName endpoint],
                                 Inr (AList.update snakeSpecName JNull serialized)))
                         else
                           ([], assign snakeSpecName
                                  (genericSerialize E specValue mappedSpecSerializationType)
                                  serialized)))))"

text \<open>The test of line 192, \<open>specValue == null || specValue.trim() === ''\<close>, on its own.\<close>

definition blank_value :: "string option \<Rightarrow> bool" where
  "blank_value specValue = (case specValue of None \<Rightarrow> True | Some t \<Rightarrow> js_trim t = [])"

text \<open>The loop over \<open>specs\<close>, lines 175-208: a throw leaves the loop.\<close>

fun scrape_specs :: "env \<Rightarrow> PartType \<Rightarrow> spec_el list \<Rightarrow> Part \<Rightarrow> log_event list \<times> (js_error + Part)" where
  "scrape_specs E endpoint [] serialized = ([], Inr serialized)"
| "scrape_specs E endpoint (spec # specs) serialized =
     (case scrape_spec E endpoint spec serialized of
        (out, Inl e) \<Rightarrow> (out, Inl e)
      | (out, Inr serialized') \<Rightarrow>
          (case scrape_specs E endpoint specs serialized' of
             (out', r) \<Rightarrow> (out @ out', r)))"

text \<open>
  The body of the \<open>try\<close> block, lines 161-208: the record of one product, or the first
  throw. \<open>priceText ? serializeNumber(priceText) : null\<close> takes \<open>null\<close> and the empty
  string as false.
\<close>

definition scrape_product :: "env \<Rightarrow> PartType \<Rightarrow> product_el \<Rightarrow> log_event list \<times> (js_error + Part)" where
  "scrape_product E endpoint productEl =
     (case nameText productEl of
        Inl e \<Rightarrow> ([], Inl e)
      | Inr innerText \<Rightarrow>
          (case priceText productEl of
             Inl e \<Rightarrow> ([], Inl e)
           | Inr price \<Rightarrow>
               (case assign ''price''
                       (case price of
                          None \<Rightarrow> Inr JNull
                        | Some t \<Rightarrow> if t = [] then Inr JNull else serializeNumber E t)
                       (AList.update ''name'' (JStr (replaceAll_nl innerText)) []) of
                  Inl e \<Rightarrow> ([], Inl e)
                | Inr serialized \<Rightarrow>
                    (case specEls productEl of
                       Inl e \<Rightarrow> ([], Inl e)
                     | Inr specs \<Rightarrow> scrape_specs E endpoint specs serialized))))"

text \<open>
  One pass of the loop over \<open>productEls\<close> up to the limit test, lines 158-213: the \<open>try\<close>
  block pushes the record; the \<open>catch\<close> prints the message and pushes nothing.
\<close>

definition try_product :: "env \<Rightarrow> PartType \<Rightarrow> product_el \<Rightarrow> Part list \<Rightarrow> log_event list \<times> Part list" where
  "try_product E endpoint productEl pageProducts =
     (case scrape_product E endpoint productEl of
        (out, Inr serialized) \<Rightarrow> (out, pageProducts @ [serialized])
      | (out, Inl (Error message)) \<Rightarrow> (out @ [ErrorProcessingProduct message], pageProducts))"

text \<open>The message of \<open>console.log\<close> at line 217 (never printed when the limit is \<open>Infinity\<close>).\<close>

fun reached_msg :: "int option \<Rightarrow> PartType \<Rightarrow> log_event list" where
  "reached_msg None endpoint = []"
| "reached_msg (Some k) endpoint = [ReachedLimit k endpoint]"

text \<open>The loop over \<open>productEls\<close>, lines 157-220, from the \<open>pageProducts\<close> pushed so far.\<close>

fun scrape_products :: "env \<Rightarrow> int option \<Rightarrow> PartType \<Rightarrow> product_el list \<Rightarrow> Part list \<Rightarrow> log_event list \<times> Part list" where
  "scrape_products E lmt endpoint [] pageProducts = ([], pageProducts)"
| "scrape_products E lmt endpoint (productEl # els) pageProducts =
     (case try_product E endpoint productEl pageProducts of
        (out, pageProducts') \<Rightarrow>
          if limit_reached lmt (length pageProducts') then
            (out @ reached_msg lmt endpoint, pageProducts')
          else
            (case scrape_products E lmt endpoint els pageProducts' of
               (out', r) \<Rightarrow> (out @ out', r)))"

text \<open>The loop test \<open>currentPage <= numPages\<close>, false for \<open>NaN\<close>.\<close>

fun page_le :: "nat \<Rightarrow> jsnum \<Rightarrow> bool" where
  "page_le p NaN = False"
| "page_le p (Num n) = (int p \<le> n)"

text \<open>Lines 149-154: how the products of a page are reached.\<close>

definition load_page :: "site \<Rightarrow> nat \<Rightarrow> js_error + product_el list" where
  "load_page st currentPage =
     (if 1 < currentPage then
        (case gotoPage st currentPage of Inl e \<Rightarrow> Inl e | Inr u \<Rightarrow> productEls st currentPage)
      else productEls st currentPage)"

text \<open>
  What a run of the generator gave its consumer: what it printed, the batches it yielded,
  in order, and how it ended, by returning or by throwing.
\<close>

type_synonym gen_run = "log_event list \<times> Part list list \<times> (js_error + unit)"

text \<open>The loop over pages, lines 146-228, from \<open>currentPage\<close> on.\<close>

function scrape_pages :: "env \<Rightarrow> int option \<Rightarrow> PartType \<Rightarrow> site \<Rightarrow> jsnum \<Rightarrow> nat \<Rightarrow> gen_run" where
  "scrape_pages E lmt endpoint st numPages currentPage =
     (if page_le currentPage numPages then
        (case load_page st currentPage of
           Inl e \<Rightarrow> ([], [], Inl e)
         | Inr els \<Rightarrow>
             (case scrape_products E lmt endpoint els [] of
                (out, pageProducts) \<Rightarrow>
                  if limit_reached lmt (length pageProducts) then
                    (ProcessingPage currentPage numPages endpoint # out, [pageProducts], Inr ())
                  else
                    (case scrape_pages E lmt endpoint st numPages (Suc currentPage) of
                       (out', batches, r) \<Rightarrow>
                         (ProcessingPage currentPage numPages endpoint # out @ out',
                          pageProducts # batches, r))))
      else ([], [], Inr ()))"
  by pat_completeness auto
termination
  by (relation "measure (\<lambda>(E, lmt, endpoint, st, numPages, currentPage).
                    case numPages of NaN \<Rightarrow> 0 | Num n \<Rightarrow> nat (n + 1) - currentPage)")
     (auto split: jsnum.splits)

text \<open>The generator \<open>scrape\<close>, lines 127-231.\<close>

definition scrape :: "env \<Rightarrow> int option \<Rightarrow> PartType \<Rightarrow> site \<Rightarrow> gen_run" where
  "scrape E lmt endpoint st =
     (case setRequestInterception st of
        Inl e \<Rightarrow> ([StartScrape endpoint], [], Inl e)
      | Inr u \<Rightarrow>
          (case getNumPages (paginationScrape st) of
             Inl e \<Rightarrow> ([StartScrape endpoint], [], Inl e)
           | Inr numPages \<Rightarrow>
               (case scrape_pages E lmt endpoint st numPages 1 of
                  (out, batches, Inl e) \<Rightarrow>
                    (StartScrape endpoint # FoundPages numPages endpoint # out, batches, Inl e)
                | (out, batches, Inr u) \<Rightarrow>
                    (StartScrape endpoint # FoundPages numPages endpoint # out
                       @ [FinishedScraping endpoint],
                     batches, Inr ()))))"

section \<open>The job and the cluster (lines 50-114)\<close>

text \<open>A file written by \<open>writeFile\<close>: its path and the array that is serialised into it.\<close>

type_synonym out_file = "string \<times> Part list"

text \<open>Line 88: \<open>join(STAGING_DIRECTORY, 'json', `${fileName}.json`)\<close>, for a file name
  with no path separator and no dot segment (which \<open>join\<close> would normalise).\<close>

definition json_path :: "string \<Rightarrow> string" where
  "json_path fileName = STAGING_DIRECTORY @ ''/json/'' @ fileName @ ''.json''"

text \<open>Lines 74-77: the consumer of the generator pushes every batch onto \<open>allParts\<close>.\<close>

definition push_all :: "Part list list \<Rightarrow> Part list" where
  "push_all batches = foldl (\<lambda>allParts pageParts. allParts @ pageParts) [] batches"

text \<open>What one call of the task function did: what it printed, the file it wrote if any, and
  whether it returned or threw.\<close>

record job_run =
  job_out :: "log_event list"
  job_file :: "out_file option"
  job_end :: "js_error + unit"

text \<open>
  The \<open>try\<close> block of the task function, lines 69-79: what it printed, \<open>allParts\<close> when
  the block was left, and whether it was left by its end or by a throw. The progress bar is
  not modelled: it takes no part in what is written.
\<close>

definition try_block :: "env \<Rightarrow> int option \<Rightarrow> PartType \<Rightarrow> site \<Rightarrow> log_event list \<times> Part list \<times> (js_error + unit)" where
  "try_block E lmt endpoint st =
     (case getNumPages (paginationTask st) of
        Inl error \<Rightarrow> ([], [], Inl error)
      | Inr numPages \<Rightarrow>
          (case scrape E lmt endpoint st of
             (out, batches, r) \<Rightarrow> (out, push_all batches, r)))"

text \<open>
  The task function, lines 63-91. \<open>setViewport\<close> is outside the \<open>try\<close> block, so its
  throw leaves the function; a throw inside the block reaches the \<open>catch\<close> of lines 80-85,
  which returns when \<open>allParts\<close> is empty and marks the file name otherwise.
\<close>

definition task :: "env \<Rightarrow> int option \<Rightarrow> PartType \<Rightarrow> site \<Rightarrow> job_run" where
  "task E lmt endpoint st =
     (case setViewport st of
        Inl e \<Rightarrow> \<lparr>job_out = [], job_file = None, job_end = Inl e\<rparr>
      | Inr u \<Rightarrow>
          (case try_block E lmt endpoint st of
             (out, allParts, Inr u) \<Rightarrow>
               \<lparr>job_out = out,
                job_file = Some (json_path endpoint, allParts),
                job_end = Inr ()\<rparr>
           | (out, allParts, Inl error) \<Rightarrow>
               \<lparr>job_out = out @ [AbortedUnexpectedly endpoint error],
                job_file =
                  (if length allParts = 0 then None
                   else Some (json_path (endpoint @ ''.incomplete''), allParts)),
                job_end = Inr ()\<rparr>))"

text \<open>
  The world of a run: the start of the cluster (lines 51-61), the two reads of the site root
  (lines 94 and 97; the first gives the HTTP status of the response, if any), and the site
  each endpoint's job meets.
\<close>

record world =
  startup :: "js_error + unit"
  rootGoto :: "js_error + nat option"
  navWait :: "js_error + unit"
  sites :: "PartType \<Rightarrow> site"

text \<open>
  The first queued function, lines 93-110: what it prints and the endpoints it queues. A
  throw of \<open>page.goto\<close> leaves the function and is taken by the cluster; nothing is queued.
\<close>

definition preflight :: "world \<Rightarrow> PartType list \<Rightarrow> log_event list \<times> PartType list" where
  "preflight w endpoints =
     (case rootGoto w of
        Inl e \<Rightarrow> ([], [])
      | Inr res \<Rightarrow>
          (case navWait w of
             Inl e \<Rightarrow> ([InitialFetchFailed res], [])
           | Inr u \<Rightarrow> ([], endpoints)))"

text \<open>
  The queued jobs, each run by the task function. The cluster runs up to five at a time and
  takes the throw of a job for itself; jobs here are listed in queue order, and what
  different jobs print is not interleaved.
\<close>

fun run_jobs :: "env \<Rightarrow> int option \<Rightarrow> world \<Rightarrow> PartType list \<Rightarrow> log_event list \<times> out_file list" where
  "run_jobs E lmt w [] = ([], [])"
| "run_jobs E lmt w (endpoint # rest) =
     (case run_jobs E lmt w rest of
        (out, files) \<Rightarrow>
          (job_out (task E lmt endpoint (sites w endpoint)) @ out,
           (case job_file (task E lmt endpoint (sites w endpoint)) of
              None \<Rightarrow> files
            | Some f \<Rightarrow> f # files)))"

text \<open>A run of \<open>scrapeInParallel\<close>: the endpoints queued, the files written, what was
  printed, and how its promise settled.\<close>

record run =
  queued :: "PartType list"
  written :: "out_file list"
  printed :: "log_event list"
  settled :: "js_error + unit"

definition scrapeInParallel :: "env \<Rightarrow> int option \<Rightarrow> world \<Rightarrow> PartType list \<Rightarrow> run" where
  "scrapeInParallel E lmt w endpoints =
     (case startup w of
        Inl e \<Rightarrow> \<lparr>queued = [], written = [], printed = [], settled = Inl e\<rparr>
      | Inr u \<Rightarrow>
          (case preflight w endpoints of
             (out, q) \<Rightarrow>
               (case run_jobs E lmt w q of
                  (out', files) \<Rightarrow>
                    \<lparr>queued = q, written = files, printed = out @ out', settled = Inr ()\<rparr>)))"

text \<open>Line 249, with the module-level values of lines 233-247.\<close>

definition program :: "env \<Rightarrow> world \<Rightarrow> string list \<Rightarrow> run" where
  "program E w argv =
     (case scrapeInParallel E (limit argv) w (endpointsToScrape argv) of
        r \<Rightarrow> r\<lparr>printed := snd (limit_of argv) @ printed r\<rparr>)"

text \<open>
  The exit code of the process. The program never calls \<open>process.exit\<close> and never assigns
  \<open>process.exitCode\<close>, so the code is the one Node gives: 0 when the promise of line 249
  is fulfilled and the event loop drains, 1 when it is rejected and nothing handles it.
\<close>

definition exit_code :: "run \<Rightarrow> nat" where
  "exit_code r = (case settled r of Inr u \<Rightarrow> 0 | Inl e \<Rightarrow> 1)"

section \<open>Notions the statements use\<close>

text \<open>A record that holds a string under \<open>name\<close> and some value under \<open>price\<close>.\<close>

definition has_name_price :: "Part \<Rightarrow> bool" where
  "has_name_price part =
     ((case map_of part ''name'' of Some (JStr n) \<Rightarrow> True | _ \<Rightarrow> False)
      \<and> (case map_of part ''price'' of Some v \<Rightarrow> True | None \<Rightarrow> False))"

text \<open>No entry of the endpoint's section of the table writes to the field \<open>name\<close>.\<close>

definition no_name_target :: "env \<Rightarrow> PartType \<Rightarrow> bool" where
  "no_name_target E endpoint =
     (\<forall>tbl l field kind. smap E endpoint = Some tbl \<longrightarrow> tbl l = Some (field, kind) \<longrightarrow> field \<noteq> ''name'')"

text \<open>The \<open>try\<close> block of a product reaches its end.\<close>

definition product_ok :: "env \<Rightarrow> PartType \<Rightarrow> product_el \<Rightarrow> bool" where
  "product_ok E endpoint productEl =
     (case snd (scrape_product E endpoint productEl) of Inr serialized \<Rightarrow> True | Inl e \<Rightarrow> False)"

text \<open>The same site with the products whose \<open>try\<close> block throws taken off every page.\<close>

definition without_failed :: "env \<Rightarrow> PartType \<Rightarrow> site \<Rightarrow> site" where
  "without_failed E endpoint st =
     st\<lparr>productEls := (\<lambda>p. case productEls st p of
                               Inl e \<Rightarrow> Inl e
                             | Inr els \<Rightarrow> Inr (filter (product_ok E endpoint) els))\<rparr>"

text \<open>The batch the generator yields for a page that loads: lines 147-222 for that page.\<close>

definition page_batch :: "env \<Rightarrow> int option \<Rightarrow> PartType \<Rightarrow> site \<Rightarrow> nat \<Rightarrow> Part list" where
  "page_batch E lmt endpoint st p =
     (case load_page st p of Inl e \<Rightarrow> [] | Inr els \<Rightarrow> snd (scrape_products E lmt endpoint els []))"

text \<open>
  The deadline of a job. Line 56 gives the cluster a timeout of 20 minutes for each job,
  and the program has no other code for it. The cluster enforces it from outside the task
  function: when the deadline passes it closes the page of the job, while the task function
  keeps running, and from then on every call on the page or on one of its elements is
  rejected. \<open>deadline_during_items p i st\<close> is the site \<open>st\<close> as a job meets it when the
  deadline passes while the products of page \<open>p\<close> are read, just before the product at
  index \<open>i\<close>: the products before it read as they did, every read of a later product of
  the page is rejected, and so is every navigation to and every query of a later page.
\<close>

definition target_closed :: js_error where
  "target_closed = Error ''Target closed''"

definition closed_el :: product_el where
  "closed_el = \<lparr>nameText = Inl target_closed, priceText = Inl target_closed,
                 specEls = Inl target_closed\<rparr>"

definition deadline_during_items :: "nat \<Rightarrow> nat \<Rightarrow> site \<Rightarrow> site" where
  "deadline_during_items p i st =
     st\<lparr>gotoPage := (\<lambda>q. if p < q then Inl target_closed else gotoPage st q),
        productEls := (\<lambda>q. if p < q then Inl target_closed
                           else if q = p then
                             (case productEls st q of
                                Inl e \<Rightarrow> Inl e
                              | Inr els \<Rightarrow> Inr (take i els @ map (\<lambda>el. closed_el) (drop i els)))
                           else productEls st q)\<rparr>"

section \<open>Example inputs\<close>

text \<open>
  A table with one \<open>number\<close> entry and one \<open>custom\<close> entry for \<open>cpu\<close>, an empty registry
  of custom serializers, and stand-ins for the two other serializers that return the raw
  text as a string.
\<close>

definition ex_table :: "string \<Rightarrow> (string \<times> string) option" where
  "ex_table = map_of [(''Core Count'', (''core_count'', ''number'')),
                      (''Core Clock'', (''core_clock'', ''custom''))]"

definition ex_env :: env where
  "ex_env = \<lparr>smap = (\<lambda>endpoint. if endpoint = ''cpu'' then Some ex_table else None),
             serializeNumber = (\<lambda>t. Inr (JStr t)),
             genericSerialize = (\<lambda>t kind. Inr (JStr t)),
             customSerializers = (\<lambda>endpoint. None)\<rparr>"

definition ex_spec :: "string \<Rightarrow> string option \<Rightarrow> spec_el" where
  "ex_spec label text = \<lparr>specLabel = Inr label, specText = Inr text\<rparr>"

text \<open>
  Products with a name, a price text and no attribute cell; a product whose name paragraph
  is missing; a site whose pages are the given lists of products, with every read after
  the last page throwing; and the record of a product under \<open>ex_env\<close>.
\<close>

definition ex_product :: "string \<Rightarrow> string \<Rightarrow> product_el" where
  "ex_product name price = \<lparr>nameText = Inr name, priceText = Inr (Some price), specEls = Inr []\<rparr>"

definition ex_bad_product :: product_el where
  "ex_bad_product = \<lparr>nameText = Inl (Error ''no element''), priceText = Inr None, specEls = Inr []\<rparr>"

definition ex_site :: "string \<Rightarrow> product_el list list \<Rightarrow> site" where
  "ex_site pagination pages =
     \<lparr>setViewport = Inr (),
      paginationTask = Inr pagination,
      setRequestInterception = Inr (),
      paginationScrape = Inr pagination,
      gotoPage = (\<lambda>p. Inr ()),
      productEls = (\<lambda>p. if 1 \<le> p \<and> p \<le> length pages then Inr (pages ! (p - 1))
                         else Inl (Error ''navigation failed''))\<rparr>"

definition ex_part :: "string \<Rightarrow> string \<Rightarrow> Part" where
  "ex_part name price = [(''name'', JStr name), (''price'', JStr price)]"

text \<open>A product of \<open>cpu\<close> with a line break in its name, a known attribute, an attribute
  the table does not know and a \<open>custom\<close> attribute with no value.\<close>

definition ex_cpu :: product_el where
  "ex_cpu = \<lparr>nameText = Inr [CHR ''R'', CHR 0x0A, CHR ''5''],
             priceText = Inr (Some ''$129.99''),
             specEls = Inr [ex_spec ''Core Count'' (Some ''6''),
                            ex_spec ''Mystery Spec'' (Some ''x''),
                            ex_spec ''Core Clock'' None]\<rparr>"

text \<open>A product of \<open>cpu\<close> whose first attribute is labelled \<open>constructor\<close>.\<close>

definition ex_odd :: product_el where
  "ex_odd = \<lparr>nameText = Inr ''A'',
             priceText = Inr (Some ''1''),
             specEls = Inr [ex_spec ''constructor'' (Some ''x''),
                            ex_spec ''Core Count'' (Some ''6'')]\<rparr>"

text \<open>A world whose site root answers 503 and never shows the \<open>nav\<close> element, and one whose
  root cannot be reached at all.\<close>

definition ex_world :: "js_error + nat option \<Rightarrow> js_error + unit \<Rightarrow> world" where
  "ex_world res nav =
     \<lparr>startup = Inr (), rootGoto = res, navWait = nav,
      sites = (\<lambda>endpoint. ex_site ''1'' [[ex_product ''A'' ''1'']])\<rparr>"

section \<open>Command line\<close>

text \<open>
  C4. Claim: when no category is given as a positional argument, also when the only
  arguments are \<open>-n\<close> and its count, the full category list is scraped, and \<open>-n\<close> and the
  count are never taken as categories.
  The program at the arguments \<open>-n 5\<close>: the limit is read as 5, and the endpoint list is
  the two arguments themselves, not \<open>ALL_ENDPOINTS\<close>. At \<open>cpu -n 5\<close> the two arguments
  follow \<open>cpu\<close> in the endpoint list. With no argument at all the list is \<open>ALL_ENDPOINTS\<close>.
\<close>

theorem flag_tokens_become_endpoints:
  "endpointsToScrape [''node'', ''scraper.js'', ''-n'', ''5''] = [''-n'', ''5'']
   \<and> endpointsToScrape [''node'', ''scraper.js'', ''-n'', ''5''] \<noteq> ALL_ENDPOINTS
   \<and> limit [''node'', ''scraper.js'', ''-n'', ''5''] = Some 5
   \<and> endpointsToScrape [''node'', ''scraper.js'', ''cpu'', ''-n'', ''5''] = [''cpu'', ''-n'', ''5'']
   \<and> endpointsToScrape [''node'', ''scraper.js''] = ALL_ENDPOINTS"
  by (simp add: endpointsToScrape_def inputEndpoints_def ALL_ENDPOINTS_def limit_def
      limit_of_def js_parseInt_def digit_val_def is_js_space_def Let_def)

section \<open>Attributes\<close>

lemmas ex_simps = ex_env_def ex_table_def ex_spec_def

lemma js_trim_empty_iff: "js_trim t = [] \<longleftrightarrow> (\<forall>c \<in> set t. is_js_space c)"
proof
  assume "js_trim t = []"
  then have "dropWhile is_js_space (rev (dropWhile is_js_space t)) = []"
    by (simp add: js_trim_def)
  then have "\<forall>c \<in> set (rev (dropWhile is_js_space t)). is_js_space c"
    by simp
  then have "dropWhile is_js_space t = []"
    by (metis hd_dropWhile list.set_sel(1) set_rev)
  then show "\<forall>c \<in> set t. is_js_space c"
    by simp
next
  assume "\<forall>c \<in> set t. is_js_space c"
  then show "js_trim t = []"
    by (auto simp: js_trim_def dest: set_dropWhileD)
qed

lemma get_mapped_Some: "tbl specName = Some mapped \<Longrightarrow> get_mapped tbl specName = Own mapped"
  by (simp add: get_mapped_def)

lemma get_mapped_Own: "get_mapped tbl specName = Own mapped \<Longrightarrow> tbl specName = Some mapped"
  by (simp add: get_mapped_def split: option.splits if_splits)

lemma get_mapped_None:
  "tbl specName = None \<Longrightarrow>
   get_mapped tbl specName = (if specName \<in> set Object_prototype_names then Inherited else Undefined)"
  by (simp add: get_mapped_def)

lemma scrape_spec_blank:
  assumes "smap E endpoint = Some tbl"
    and "specLabel spec = Inr l"
    and "tbl (js_trim l) = Some (field, kind)"
    and "specText spec = Inr v"
    and "blank_value v"
  shows "scrape_spec E endpoint spec serialized = ([], Inr (AList.update field JNull serialized))"
  using assms by (cases v) (simp_all add: scrape_spec_def blank_value_def get_mapped_Some)

lemma scrape_specs_append:
  "scrape_specs E endpoint (xs @ ys) serialized =
     (case scrape_specs E endpoint xs serialized of
        (out, Inl e) \<Rightarrow> (out, Inl e)
      | (out, Inr serialized') \<Rightarrow>
          (case scrape_specs E endpoint ys serialized' of (out', r) \<Rightarrow> (out @ out', r)))"
  by (induction xs arbitrary: serialized) (auto split: prod.splits sum.splits)

text \<open>
  An attribute whose label, trimmed, has no entry in the endpoint's section of the table
  and is not a name the section inherits: the step prints the warning of line 182 and
  returns the record as it was, so no field is added for it; the loop goes on to the
  attributes after it, and the record (or the throw) the whole loop ends with is the one it
  ends with when the attribute is not on the page.
\<close>

lemma unknown_label_skipped:
  assumes "smap E endpoint = Some tbl"
    and "specLabel spec = Inr l"
    and "tbl (js_trim l) = None"
    and "js_trim l \<notin> set Object_prototype_names"
  shows "scrape_spec E endpoint spec serialized = ([UnknownSpec (js_trim l) endpoint], Inr serialized)
       \<and> scrape_specs E endpoint (spec # rest) serialized =
           (UnknownSpec (js_trim l) endpoint # fst (scrape_specs E endpoint rest serialized),
            snd (scrape_specs E endpoint rest serialized))
       \<and> snd (scrape_specs E endpoint (before @ spec # rest) serialized) =
           snd (scrape_specs E endpoint (before @ rest) serialized)"
proof -
  have step: "scrape_spec E endpoint spec s = ([UnknownSpec (js_trim l) endpoint], Inr s)" for s
    using assms by (simp add: scrape_spec_def get_mapped_None)
  have cons: "scrape_specs E endpoint (spec # rest) s =
           (UnknownSpec (js_trim l) endpoint # fst (scrape_specs E endpoint rest s),
            snd (scrape_specs E endpoint rest s))" for s
    by (simp add: step split: prod.splits)
  have "snd (scrape_specs E endpoint (before @ spec # rest) serialized) =
           snd (scrape_specs E endpoint (before @ rest) serialized)"
    by (simp only: scrape_specs_append cons) (auto split: prod.splits sum.splits)
  with step cons show ?thesis by blast
qed

lemma unknown_label_skipped_example:
  "scrape_specs ex_env ''cpu''
     [ex_spec ''Mystery Spec'' (Some ''x''), ex_spec ''Core Count'' (Some ''8'')] []
   = ([UnknownSpec ''Mystery Spec'' ''cpu''], Inr [(''core_count'', JStr ''8'')])"
  using unknown_label_skipped [of ex_env "''cpu''" ex_table "ex_spec ''Mystery Spec'' (Some ''x'')"
      "''Mystery Spec''" "[]" "[ex_spec ''Core Count'' (Some ''8'')]" "[]"]
  by (simp add: ex_simps js_trim_def is_js_space_def scrape_spec_def assign_def
      get_mapped_def Object_prototype_names_def)

text \<open>
  C7. Claim: for every attribute whose label has no entry in the category's table, a
  warning is logged, no field for it appears on the record, and the item's remaining
  attributes are extracted.
  The program at a product of \<open>cpu\<close> with an attribute labelled \<open>constructor\<close>, for which
  the table has no entry: \<open>map[endpoint][specName]\<close> finds the inherited property, the test
  of line 181 does not see an unknown label, line 186 throws, no warning of line 182 is
  printed, the attribute after it is not read, and the \<open>catch\<close> of line 211 drops the
  whole product from the batch.
\<close>

theorem inherited_label_drops_product:
  "ex_table ''constructor'' = None
   \<and> scrape_spec ex_env ''cpu'' (ex_spec ''constructor'' (Some ''x'')) [(''name'', JStr ''A'')]
       = ([], Inl (Error ''mapped is not iterable''))
   \<and> scrape_product ex_env ''cpu'' ex_odd = ([], Inl (Error ''mapped is not iterable''))
   \<and> scrape_products ex_env None ''cpu'' [ex_odd] []
       = ([ErrorProcessingProduct ''mapped is not iterable''], [])"
  by (simp add: ex_simps ex_odd_def js_trim_def is_js_space_def scrape_spec_def
      scrape_product_def try_product_def assign_def get_mapped_def Object_prototype_names_def)

text \<open>
  C8, as the program has it. An attribute mapped as \<open>custom\<close> with no serializer registered
  for the endpoint and field never throws and leaves the field \<open>null\<close>. The warning of line
  199 is printed when the raw value is not blank; a blank value (missing, empty or white
  space only) is set to \<open>null\<close> by line 193 before the registry is looked at, and nothing
  is printed.
\<close>

theorem missing_custom_serializer_null:
  assumes "smap E endpoint = Some tbl"
    and "specLabel spec = Inr l"
    and "tbl (js_trim l) = Some (field, ''custom'')"
    and "lookup_custom E endpoint field = None"
    and "specText spec = Inr v"
  shows "scrape_spec E endpoint spec serialized =
           (if blank_value v then [] else [NoCustomSerializer field endpoint],
            Inr (AList.update field JNull serialized))"
  using assms by (cases v) (simp_all add: scrape_spec_def blank_value_def get_mapped_Some)

theorem missing_custom_serializer_null_witness:
  "scrape_spec ex_env ''cpu'' (ex_spec ''Core Clock'' (Some ''3.5 GHz'')) []
   = ([NoCustomSerializer ''core_clock'' ''cpu''], Inr [(''core_clock'', JNull)])"
  using missing_custom_serializer_null [of ex_env "''cpu''" ex_table
      "ex_spec ''Core Clock'' (Some ''3.5 GHz'')" "''Core Clock''" "''core_clock''"
      "Some ''3.5 GHz''" "[]"]
  by (simp add: ex_simps js_trim_def is_js_space_def lookup_custom_def blank_value_def)

text \<open>
  C8 as claimed says the warning is printed for every such attribute. For a \<open>custom\<close>
  attribute with no registered serializer whose raw value is a single space, the field is
  \<open>null\<close> and nothing is printed.
\<close>

theorem blank_custom_value_no_warning:
  "lookup_custom ex_env ''cpu'' ''core_clock'' = None
   \<and> ex_table ''Core Clock'' = Some (''core_clock'', ''custom'')
   \<and> scrape_spec ex_env ''cpu'' (ex_spec ''Core Clock'' (Some '' '')) []
       = ([], Inr [(''core_clock'', JNull)])
   \<and> NoCustomSerializer ''core_clock'' ''cpu''
       \<notin> set (fst (scrape_spec ex_env ''cpu'' (ex_spec ''Core Clock'' (Some '' '')) []))"
  by (simp add: ex_simps js_trim_def is_js_space_def lookup_custom_def scrape_spec_def
      get_mapped_def)

text \<open>
  C10. A mapped attribute whose raw value is missing, empty or white space only: the field
  is set to \<open>null\<close> and nothing is printed, whatever the serialization type of the entry and
  whatever the three serializers are, also when each of them would throw.
\<close>

theorem blank_value_is_null:
  assumes "smap E endpoint = Some tbl"
    and "specLabel spec = Inr l"
    and "tbl (js_trim l) = Some (field, kind)"
    and "specText spec = Inr v"
    and "v = None \<or> (\<exists>t. v = Some t \<and> (\<forall>c \<in> set t. is_js_space c))"
  shows "scrape_spec (E\<lparr>serializeNumber := sn, genericSerialize := gs, customSerializers := cs\<rparr>)
           endpoint spec serialized
         = ([], Inr (AList.update field JNull serialized))"
proof -
  have "blank_value v"
    using assms(5) by (auto simp: blank_value_def js_trim_empty_iff)
  moreover have "smap (E\<lparr>serializeNumber := sn, genericSerialize := gs, customSerializers := cs\<rparr>) endpoint = Some tbl"
    using assms(1) by simp
  ultimately show ?thesis
    using assms(2-4) scrape_spec_blank by blast
qed

theorem blank_value_is_null_witness:
  "scrape_spec (ex_env\<lparr>serializeNumber := (\<lambda>t. Inl (Error ''thrown'')),
                        genericSerialize := (\<lambda>t kind. Inl (Error ''thrown'')),
                        customSerializers := (\<lambda>endpoint. None)\<rparr>)
     ''cpu'' (ex_spec ''Core Count'' (Some '' '')) [(''name'', JStr ''A'')]
   = ([], Inr [(''name'', JStr ''A''), (''core_count'', JNull)])"
  using blank_value_is_null [where E = ex_env and endpoint = "''cpu''" and tbl = ex_table
      and spec = "ex_spec ''Core Count'' (Some '' '')" and l = "''Core Count''"
      and field = "''core_count''" and kind = "''number''" and v = "Some '' ''"
      and sn = "\<lambda>t. Inl (Error ''thrown'')" and gs = "\<lambda>t kind. Inl (Error ''thrown'')"
      and cs = "\<lambda>endpoint. None" and serialized = "[(''name'', JStr ''A'')]"]
  by (simp add: ex_simps js_trim_def is_js_space_def)


section \<open>Facts about the loops\<close>

declare scrape_pages.simps [simp del]

lemma scrape_batches:
  "fst (snd (scrape E lmt endpoint st)) =
     (case setRequestInterception st of
        Inl e \<Rightarrow> []
      | Inr u \<Rightarrow>
          (case getNumPages (paginationScrape st) of
             Inl e \<Rightarrow> []
           | Inr numPages \<Rightarrow> fst (snd (scrape_pages E lmt endpoint st numPages 1))))"
  by (simp add: scrape_def split: sum.splits prod.splits)

lemma scrape_end:
  "snd (snd (scrape E lmt endpoint st)) =
     (case setRequestInterception st of
        Inl e \<Rightarrow> Inl e
      | Inr u \<Rightarrow>
          (case getNumPages (paginationScrape st) of
             Inl e \<Rightarrow> Inl e
           | Inr numPages \<Rightarrow> snd (snd (scrape_pages E lmt endpoint st numPages 1))))"
  by (simp add: scrape_def split: sum.splits prod.splits)

lemma scrape_batches_cases:
  "fst (snd (scrape E lmt endpoint st)) = []
   \<or> (\<exists>numPages. fst (snd (scrape E lmt endpoint st))
                      = fst (snd (scrape_pages E lmt endpoint st numPages 1)))"
  by (auto simp: scrape_batches split: sum.splits)

lemma push_all_concat: "push_all batches = concat batches"
proof -
  have "foldl (\<lambda>allParts pageParts. allParts @ pageParts) acc batches = acc @ concat batches" for acc
    by (induction batches arbitrary: acc) simp_all
  then show ?thesis by (simp add: push_all_def)
qed

lemma limit_reached_mono: "limit_reached lmt m \<Longrightarrow> m \<le> n \<Longrightarrow> limit_reached lmt n"
  by (cases lmt) auto


section \<open>The examples, evaluated\<close>

lemma ex_load_page:
  "load_page (ex_site pagination pages) p =
     (if 1 \<le> p \<and> p \<le> length pages then Inr (pages ! (p - 1))
      else Inl (Error ''navigation failed''))"
  by (simp add: load_page_def ex_site_def)

lemmas ex_eval =
  scrape_def getNumPages_def js_parseInt_def digit_val_def is_js_space_def
  scrape_pages.simps ex_load_page try_product_def replaceAll_nl_def
  ex_site_def [THEN arg_cong, of setRequestInterception]
  ex_site_def [THEN arg_cong, of paginationScrape]
  ex_site_def [THEN arg_cong, of paginationTask]
  ex_site_def [THEN arg_cong, of setViewport]

lemma ex_scrape_product [simp]:
  "scrape_product ex_env endpoint (ex_product (c # name) (d # price))
   = ([], Inr (ex_part (replaceAll_nl (c # name)) (d # price)))"
  by (simp add: scrape_product_def ex_product_def ex_env_def assign_def ex_part_def)

lemma ex_scrape_bad_product [simp]:
  "scrape_product ex_env endpoint ex_bad_product = ([], Inl (Error ''no element''))"
  by (simp add: scrape_product_def ex_bad_product_def)

lemma ex_scrape_cpu:
  "scrape_product ex_env ''cpu'' ex_cpu
   = ([UnknownSpec ''Mystery Spec'' ''cpu''],
      Inr [(''name'', JStr ''R 5''), (''price'', JStr ''$129.99''),
           (''core_count'', JStr ''6''), (''core_clock'', JNull)])"
  by (simp add: scrape_product_def ex_cpu_def ex_simps assign_def scrape_spec_def
      js_trim_def is_js_space_def replaceAll_nl_def get_mapped_def Object_prototype_names_def)

lemma ex_one_page:
  "scrape ex_env None ''cpu'' (ex_site ''1'' [[ex_cpu]])
   = ([StartScrape ''cpu'', FoundPages (Num 1) ''cpu'', ProcessingPage 1 (Num 1) ''cpu'',
       UnknownSpec ''Mystery Spec'' ''cpu'', FinishedScraping ''cpu''],
      [[[(''name'', JStr ''R 5''), (''price'', JStr ''$129.99''),
         (''core_count'', JStr ''6''), (''core_clock'', JNull)]]],
      Inr ())"
  by (simp add: ex_eval ex_scrape_cpu)

lemma ex_two_pages_capped:
  "scrape ex_env (Some 3) ''cpu''
     (ex_site ''2'' [[ex_product ''A'' ''1'', ex_product ''B'' ''2''],
                     [ex_product ''C'' ''3'', ex_product ''D'' ''4'']])
   = ([StartScrape ''cpu'', FoundPages (Num 2) ''cpu'',
       ProcessingPage 1 (Num 2) ''cpu'', ProcessingPage 2 (Num 2) ''cpu'',
       FinishedScraping ''cpu''],
      [[ex_part ''A'' ''1'', ex_part ''B'' ''2''], [ex_part ''C'' ''3'', ex_part ''D'' ''4'']],
      Inr ())"
  by (simp add: ex_eval)

lemma ex_two_pages_cap0:
  "scrape ex_env (Some 0) ''cpu''
     (ex_site ''2'' [[ex_product ''A'' ''1'', ex_product ''B'' ''2''],
                     [ex_product ''C'' ''3'', ex_product ''D'' ''4'']])
   = ([StartScrape ''cpu'', FoundPages (Num 2) ''cpu'',
       ProcessingPage 1 (Num 2) ''cpu'', ReachedLimit 0 ''cpu'', FinishedScraping ''cpu''],
      [[ex_part ''A'' ''1'']],
      Inr ())"
  by (simp add: ex_eval)

lemma ex_with_failures:
  "scrape ex_env None ''cpu''
     (ex_site ''2'' [[ex_bad_product, ex_product ''A'' ''1''],
                     [ex_product ''B'' ''2'', ex_bad_product, ex_product ''C'' ''3'']])
   = ([StartScrape ''cpu'', FoundPages (Num 2) ''cpu'',
       ProcessingPage 1 (Num 2) ''cpu'', ErrorProcessingProduct ''no element'',
       ProcessingPage 2 (Num 2) ''cpu'', ErrorProcessingProduct ''no element'',
       FinishedScraping ''cpu''],
      [[ex_part ''A'' ''1''], [ex_part ''B'' ''2'', ex_part ''C'' ''3'']],
      Inr ())"
  by (simp add: ex_eval)

lemma ex_third_page_fails:
  "scrape ex_env None ''cpu''
     (ex_site ''3'' [[ex_product ''A'' ''1'', ex_product ''B'' ''2''], [ex_product ''C'' ''3'']])
   = ([StartScrape ''cpu'', FoundPages (Num 3) ''cpu'',
       ProcessingPage 1 (Num 3) ''cpu'', ProcessingPage 2 (Num 3) ''cpu''],
      [[ex_part ''A'' ''1'', ex_part ''B'' ''2''], [ex_part ''C'' ''3'']],
      Inl (Error ''navigation failed''))"
  by (simp add: ex_eval)

lemma ex_first_page_fails:
  "scrape ex_env None ''cpu'' (ex_site ''1'' [])
   = ([StartScrape ''cpu'', FoundPages (Num 1) ''cpu''], [], Inl (Error ''navigation failed''))"
  by (simp add: ex_eval)

lemma ex_try_block_third:
  "try_block ex_env None ''cpu''
     (ex_site ''3'' [[ex_product ''A'' ''1'', ex_product ''B'' ''2''], [ex_product ''C'' ''3'']])
   = ([StartScrape ''cpu'', FoundPages (Num 3) ''cpu'',
       ProcessingPage 1 (Num 3) ''cpu'', ProcessingPage 2 (Num 3) ''cpu''],
      [ex_part ''A'' ''1'', ex_part ''B'' ''2'', ex_part ''C'' ''3''],
      Inl (Error ''navigation failed''))"
  by (simp add: try_block_def ex_third_page_fails push_all_def getNumPages_def
      ex_site_def [THEN arg_cong, of paginationTask])

lemma ex_try_block_first:
  "try_block ex_env None ''cpu'' (ex_site ''1'' [])
   = ([StartScrape ''cpu'', FoundPages (Num 1) ''cpu''], [], Inl (Error ''navigation failed''))"
  by (simp add: try_block_def ex_first_page_fails push_all_def getNumPages_def
      ex_site_def [THEN arg_cong, of paginationTask])

lemma ex_program_runs:
  "queued (program ex_env (ex_world (Inr (Some 200)) (Inr ())) [''node'', ''scraper.js'', ''cpu''])
     = [''cpu'']
   \<and> written (program ex_env (ex_world (Inr (Some 200)) (Inr ())) [''node'', ''scraper.js'', ''cpu''])
     = [(''data-staging/json/cpu.json'', [ex_part ''A'' ''1''])]"
  by (simp add: ex_world_def program_def scrapeInParallel_def preflight_def
      limit_def limit_of_def inputEndpoints_def endpointsToScrape_def task_def try_block_def
      push_all_def json_path_def STAGING_DIRECTORY_def ex_eval)


lemma ex_scrape_closed_el [simp]:
  "scrape_product E endpoint closed_el = ([], Inl (Error ''Target closed''))"
  by (simp add: scrape_product_def closed_el_def target_closed_def)

lemma deadline_reads:
  "setViewport (deadline_during_items p i st) = setViewport st"
  "paginationTask (deadline_during_items p i st) = paginationTask st"
  "setRequestInterception (deadline_during_items p i st) = setRequestInterception st"
  "paginationScrape (deadline_during_items p i st) = paginationScrape st"
  by (simp_all add: deadline_during_items_def)

lemma ex_deadline_last_page:
  "scrape ex_env None ''cpu''
     (deadline_during_items 2 (Suc 0)
        (ex_site ''2'' [[ex_product ''A'' ''1''], [ex_product ''B'' ''2'', ex_product ''C'' ''3'']]))
   = ([StartScrape ''cpu'', FoundPages (Num 2) ''cpu'',
       ProcessingPage 1 (Num 2) ''cpu'', ProcessingPage 2 (Num 2) ''cpu'',
       ErrorProcessingProduct ''Target closed'', FinishedScraping ''cpu''],
      [[ex_part ''A'' ''1''], [ex_part ''B'' ''2'']],
      Inr ())"
  by (simp add: ex_eval deadline_during_items_def load_page_def ex_site_def)

lemma ex_deadline_first_page:
  "scrape ex_env None ''cpu''
     (deadline_during_items (Suc 0) (Suc 0)
        (ex_site ''2'' [[ex_product ''A'' ''1'', ex_product ''B'' ''2''], [ex_product ''C'' ''3'']]))
   = ([StartScrape ''cpu'', FoundPages (Num 2) ''cpu'',
       ProcessingPage 1 (Num 2) ''cpu'', ErrorProcessingProduct ''Target closed''],
      [[ex_part ''A'' ''1'']],
      Inl (Error ''Target closed''))"
  by (simp add: ex_eval deadline_during_items_def load_page_def ex_site_def target_closed_def)

section \<open>Records\<close>

lemma has_name_price_update:
  "has_name_price s \<Longrightarrow> field \<noteq> ''name'' \<Longrightarrow> has_name_price (AList.update field v s)"
  by (simp add: has_name_price_def update_conv' split: option.splits)

lemma scrape_spec_preserves:
  assumes "scrape_spec E endpoint spec s = (out, Inr s')"
    and "P s"
    and "\<And>tbl l field kind v. smap E endpoint = Some tbl \<Longrightarrow> tbl l = Some (field, kind)
           \<Longrightarrow> P (AList.update field v s)"
  shows "P s'"
  using assms(1,2)
  by (auto simp: scrape_spec_def assign_def simp del: AList.update.simps
      split: sum.splits option.splits if_splits js_prop.splits
      dest!: get_mapped_Own intro: assms(3))

lemma scrape_spec_keeps:
  assumes "no_name_target E endpoint"
    and "scrape_spec E endpoint spec s = (out, Inr s')"
    and "has_name_price s"
  shows "has_name_price s'"
proof (rule scrape_spec_preserves [OF assms(2), where P = has_name_price])
  show "has_name_price s" by (rule assms(3))
next
  fix tbl l field kind v
  assume "smap E endpoint = Some tbl" and "tbl l = Some (field, kind)"
  with assms(1) have "field \<noteq> ''name''"
    unfolding no_name_target_def by blast
  with assms(3) show "has_name_price (AList.update field v s)"
    by (rule has_name_price_update)
qed

lemma scrape_specs_keeps:
  assumes "no_name_target E endpoint"
  shows "scrape_specs E endpoint specs s = (out, Inr s') \<Longrightarrow> has_name_price s \<Longrightarrow> has_name_price s'"
proof (induction specs arbitrary: s out)
  case Nil
  then show ?case by simp
next
  case (Cons spec specs)
  then show ?case
    by (auto split: prod.splits sum.splits dest: scrape_spec_keeps [OF assms])
qed

lemma scrape_product_has_name_price:
  assumes "no_name_target E endpoint"
    and "scrape_product E endpoint productEl = (out, Inr part)"
  shows "has_name_price part"
proof -
  have init: "has_name_price (AList.update ''price'' v (AList.update ''name'' (JStr n) []))" for v n
    by (simp add: has_name_price_def)
  from assms(2) obtain v n specs where
    "scrape_specs E endpoint specs (AList.update ''price'' v (AList.update ''name'' (JStr n) []))
       = (out, Inr part)"
    by (auto simp: scrape_product_def assign_def simp del: AList.update.simps
        split: sum.splits option.splits if_splits)
  then show ?thesis
    using scrape_specs_keeps [OF assms(1)] init by blast
qed

lemma scrape_products_has_name_price:
  assumes "no_name_target E endpoint"
  shows "\<forall>part \<in> set pageProducts. has_name_price part \<Longrightarrow>
         \<forall>part \<in> set (snd (scrape_products E lmt endpoint els pageProducts)). has_name_price part"
proof (induction els arbitrary: pageProducts)
  case Nil
  then show ?case by simp
next
  case (Cons productEl els)
  obtain out pp where tp: "try_product E endpoint productEl pageProducts = (out, pp)"
    by (cases "try_product E endpoint productEl pageProducts")
  have pp: "\<forall>part \<in> set pp. has_name_price part"
    using tp Cons.prems
    by (auto simp: try_product_def split: prod.splits sum.splits js_error.splits
        dest: scrape_product_has_name_price [OF assms])
  show ?case
  proof (cases "limit_reached lmt (length pp)")
    case True
    with tp pp show ?thesis by simp
  next
    case False
    with tp Cons.IH [OF pp] show ?thesis
      by (simp split: prod.splits)
  qed
qed

lemma scrape_pages_has_name_price:
  assumes "no_name_target E endpoint"
  shows "\<forall>batch \<in> set (fst (snd (scrape_pages E lmt endpoint st numPages currentPage))).
           \<forall>part \<in> set batch. has_name_price part"
  using assms
proof (induction E lmt endpoint st numPages currentPage rule: scrape_pages.induct)
  case (1 E lmt endpoint st numPages currentPage)
  have batch: "\<forall>part \<in> set (snd (scrape_products E lmt endpoint els [])). has_name_price part" for els
    using scrape_products_has_name_price [OF "1.prems", of "[]"] by simp
  show ?case
  proof (cases "page_le currentPage numPages")
    case False
    then show ?thesis by (subst scrape_pages.simps) simp
  next
    case True
    show ?thesis
    proof (cases "load_page st currentPage")
      case (Inl e)
      with True show ?thesis by (subst scrape_pages.simps) simp
    next
      case (Inr els)
      obtain out pp where sp: "scrape_products E lmt endpoint els [] = (out, pp)"
        by (cases "scrape_products E lmt endpoint els []")
      have pp: "\<forall>part \<in> set pp. has_name_price part"
        using batch [of els] sp by simp
      show ?thesis
      proof (cases "limit_reached lmt (length pp)")
        case True
        with \<open>page_le currentPage numPages\<close> Inr sp pp show ?thesis
          by (subst scrape_pages.simps) simp
      next
        case False
        with "1.IH" [OF \<open>page_le currentPage numPages\<close> Inr sp [symmetric] False "1.prems"]
          \<open>page_le currentPage numPages\<close> Inr sp pp
        show ?thesis
          by (subst scrape_pages.simps) (simp split: prod.splits)
      qed
    qed
  qed
qed


text \<open>
  C9. Every record in every batch the generator yields has a \<open>name\<close> field holding a
  string and a \<open>price\<close> field (whose value may be \<open>null\<close>), for every limit and every
  site. The table is a parameter: the statement holds for a table in which no entry of the
  endpoint's section has \<open>name\<close> as its output field, since line 193, 197, 200 or 203
  would overwrite the name with the value of that attribute.
\<close>

theorem record_has_name_and_price:
  assumes "\<forall>tbl l field kind.
             smap E endpoint = Some tbl \<longrightarrow> tbl l = Some (field, kind) \<longrightarrow> field \<noteq> ''name''"
    and "batch \<in> set (fst (snd (scrape E lmt endpoint st)))"
    and "part \<in> set batch"
  shows "(\<exists>n. map_of part ''name'' = Some (JStr n)) \<and> (\<exists>v. map_of part ''price'' = Some v)"
proof -
  have nn: "no_name_target E endpoint"
    using assms(1) by (simp add: no_name_target_def)
  from assms(2) scrape_batches_cases [of E lmt endpoint st] obtain numPages where
    "batch \<in> set (fst (snd (scrape_pages E lmt endpoint st numPages 1)))"
    by fastforce
  with scrape_pages_has_name_price [OF nn] assms(3) have "has_name_price part"
    by blast
  then show ?thesis
    by (auto simp: has_name_price_def split: option.splits jsvalue.splits)
qed

theorem record_has_name_and_price_witness:
  "(\<exists>n. map_of [(''name'', JStr ''R 5''), (''price'', JStr ''$129.99''),
                 (''core_count'', JStr ''6''), (''core_clock'', JNull)] ''name'' = Some (JStr n))
   \<and> (\<exists>v. map_of [(''name'', JStr ''R 5''), (''price'', JStr ''$129.99''),
                   (''core_count'', JStr ''6''), (''core_clock'', JNull)] ''price'' = Some v)"
proof -
  have table: "\<forall>tbl l field kind.
      smap ex_env ''cpu'' = Some tbl \<longrightarrow> tbl l = Some (field, kind) \<longrightarrow> field \<noteq> ''name''"
    by (auto simp: ex_simps split: if_splits)
  have batch: "[[(''name'', JStr ''R 5''), (''price'', JStr ''$129.99''),
                 (''core_count'', JStr ''6''), (''core_clock'', JNull)]]
               \<in> set (fst (snd (scrape ex_env None ''cpu'' (ex_site ''1'' [[ex_cpu]]))))"
    by (simp add: ex_one_page)
  show ?thesis
    by (rule record_has_name_and_price [OF table batch]) simp
qed


section \<open>Products that fail\<close>

lemma try_product_failed:
  assumes "scrape_product E endpoint productEl = (out, Inl (Error message))"
  shows "try_product E endpoint productEl pageProducts
         = (out @ [ErrorProcessingProduct message], pageProducts)"
  using assms by (simp add: try_product_def)

lemma try_product_not_ok:
  "\<not> product_ok E endpoint productEl \<Longrightarrow>
   snd (try_product E endpoint productEl pageProducts) = pageProducts"
  by (auto simp: product_ok_def try_product_def split: prod.splits sum.splits js_error.splits)

lemma scrape_products_without_failed:
  "\<not> limit_reached lmt (length pageProducts) \<Longrightarrow>
   snd (scrape_products E lmt endpoint (filter (product_ok E endpoint) els) pageProducts)
   = snd (scrape_products E lmt endpoint els pageProducts)"
proof (induction els arbitrary: pageProducts)
  case Nil
  then show ?case by simp
next
  case (Cons productEl els)
  show ?case
  proof (cases "product_ok E endpoint productEl")
    case False
    then have "snd (try_product E endpoint productEl pageProducts) = pageProducts"
      by (rule try_product_not_ok)
    then obtain out where "try_product E endpoint productEl pageProducts = (out, pageProducts)"
      by (cases "try_product E endpoint productEl pageProducts") simp
    with False Cons show ?thesis
      by (simp split: prod.splits)
  next
    case True
    obtain out pp where tp: "try_product E endpoint productEl pageProducts = (out, pp)"
      by (cases "try_product E endpoint productEl pageProducts")
    show ?thesis
    proof (cases "limit_reached lmt (length pp)")
      case True
      with \<open>product_ok E endpoint productEl\<close> tp show ?thesis by simp
    next
      case False
      with \<open>product_ok E endpoint productEl\<close> tp Cons.IH [OF False] show ?thesis
        by (simp add: case_prod_beta)
    qed
  qed
qed

lemma load_page_without_failed:
  "load_page (without_failed E endpoint st) p =
     (case load_page st p of
        Inl e \<Rightarrow> Inl e
      | Inr els \<Rightarrow> Inr (filter (product_ok E endpoint) els))"
  by (simp add: load_page_def without_failed_def split: sum.splits)

lemma scrape_pages_without_failed:
  "\<not> limit_reached lmt 0 \<Longrightarrow>
   snd (scrape_pages E lmt endpoint (without_failed E endpoint st) numPages currentPage)
   = snd (scrape_pages E lmt endpoint st numPages currentPage)"
proof (induction E lmt endpoint st numPages currentPage rule: scrape_pages.induct)
  case (1 E lmt endpoint st numPages currentPage)
  show ?case
  proof (cases "page_le currentPage numPages")
    case False
    then show ?thesis
      by (simp add: scrape_pages.simps [of _ _ _ _ numPages currentPage])
  next
    case True
    show ?thesis
    proof (cases "load_page st currentPage")
      case (Inl e)
      with True show ?thesis
        by (simp add: scrape_pages.simps [of _ _ _ _ numPages currentPage] load_page_without_failed)
    next
      case (Inr els)
      obtain out pp where sp: "scrape_products E lmt endpoint els [] = (out, pp)"
        by (cases "scrape_products E lmt endpoint els []")
      obtain out' pp' where sp':
        "scrape_products E lmt endpoint (filter (product_ok E endpoint) els) [] = (out', pp')"
        by (cases "scrape_products E lmt endpoint (filter (product_ok E endpoint) els) []")
      have same: "pp' = pp"
        using scrape_products_without_failed [of lmt "[]" E endpoint els] "1.prems" sp sp'
        by simp
      show ?thesis
      proof (cases "limit_reached lmt (length pp)")
        case True
        with \<open>page_le currentPage numPages\<close> Inr sp sp' same show ?thesis
          by (simp add: scrape_pages.simps [of _ _ _ _ numPages currentPage] load_page_without_failed)
      next
        case False
        with "1.IH" [OF \<open>page_le currentPage numPages\<close> Inr sp [symmetric] False "1.prems"]
          \<open>page_le currentPage numPages\<close> Inr sp sp' same
        show ?thesis
          by (simp add: scrape_pages.simps [of _ _ _ _ numPages currentPage]
              load_page_without_failed case_prod_beta)
      qed
    qed
  qed
qed

lemma scrape_pages_end_capped:
  assumes "limit_reached lmt 0"
  shows "snd (snd (scrape_pages E lmt endpoint st numPages currentPage)) =
           (if page_le currentPage numPages then
              (case load_page st currentPage of Inl e \<Rightarrow> Inl e | Inr els \<Rightarrow> Inr ())
            else Inr ())"
proof -
  have "limit_reached lmt n" for n
    using assms limit_reached_mono by blast
  then show ?thesis
    by (simp add: scrape_pages.simps [of _ _ _ _ numPages currentPage]
        split: sum.splits prod.splits)
qed

lemma without_failed_reads:
  "setRequestInterception (without_failed E endpoint st) = setRequestInterception st"
  "paginationScrape (without_failed E endpoint st) = paginationScrape st"
  by (simp_all add: without_failed_def)


text \<open>
  C5. A throw while one product is processed is caught by line 211: the message is printed
  and nothing is pushed (third part), and where the limit is not already reached the loop
  goes on with the products after it (fourth part). For the whole generator: it ends, by
  returning or by throwing, exactly as it does on the site without the failing products,
  for every limit (first part), so such a throw never ends the page or the job; and with
  no limit or a limit of at least 1 it yields exactly the batches it yields on that site
  (second part), so every other product of every page is processed as if the failing ones
  were not there. A limit of 0 or less is reached by the empty batch: the loop then stops
  after the first product of the first page whether that product failed or not.
\<close>

theorem item_failure_isolated:
  "snd (snd (scrape E lmt endpoint (without_failed E endpoint st)))
     = snd (snd (scrape E lmt endpoint st))
   \<and> (lmt = None \<or> (\<exists>k. lmt = Some k \<and> 1 \<le> k) \<longrightarrow>
        fst (snd (scrape E lmt endpoint (without_failed E endpoint st)))
          = fst (snd (scrape E lmt endpoint st)))
   \<and> (scrape_product E endpoint productEl = (out, Inl (Error message)) \<longrightarrow>
        try_product E endpoint productEl pageProducts
          = (out @ [ErrorProcessingProduct message], pageProducts)
        \<and> (\<not> limit_reached lmt (length pageProducts) \<longrightarrow>
             scrape_products E lmt endpoint (productEl # rest) pageProducts
               = (out @ ErrorProcessingProduct message
                    # fst (scrape_products E lmt endpoint rest pageProducts),
                  snd (scrape_products E lmt endpoint rest pageProducts))))"
proof (intro conjI impI)
  show "snd (snd (scrape E lmt endpoint (without_failed E endpoint st)))
          = snd (snd (scrape E lmt endpoint st))"
  proof (cases "limit_reached lmt 0")
    case True
    then show ?thesis
      by (simp add: scrape_end without_failed_reads scrape_pages_end_capped load_page_without_failed
          split: sum.splits)
  next
    case False
    then show ?thesis
      by (simp add: scrape_end without_failed_reads scrape_pages_without_failed split: sum.splits)
  qed
next
  assume "lmt = None \<or> (\<exists>k. lmt = Some k \<and> 1 \<le> k)"
  then have "\<not> limit_reached lmt 0"
    by auto
  then show "fst (snd (scrape E lmt endpoint (without_failed E endpoint st)))
          = fst (snd (scrape E lmt endpoint st))"
    by (simp add: scrape_batches without_failed_reads scrape_pages_without_failed split: sum.splits)
next
  assume "scrape_product E endpoint productEl = (out, Inl (Error message))"
  then show "try_product E endpoint productEl pageProducts
          = (out @ [ErrorProcessingProduct message], pageProducts)"
    by (rule try_product_failed)
next
  assume "scrape_product E endpoint productEl = (out, Inl (Error message))"
    and "\<not> limit_reached lmt (length pageProducts)"
  then show "scrape_products E lmt endpoint (productEl # rest) pageProducts
               = (out @ ErrorProcessingProduct message
                    # fst (scrape_products E lmt endpoint rest pageProducts),
                  snd (scrape_products E lmt endpoint rest pageProducts))"
    by (simp add: try_product_failed case_prod_beta)
qed

theorem item_failure_isolated_witness:
  "fst (snd (scrape ex_env None ''cpu''
       (ex_site ''2'' [[ex_bad_product, ex_product ''A'' ''1''],
                       [ex_product ''B'' ''2'', ex_bad_product, ex_product ''C'' ''3'']])))
     = [[ex_part ''A'' ''1''], [ex_part ''B'' ''2'', ex_part ''C'' ''3'']]
   \<and> fst (snd (scrape ex_env None ''cpu''
       (without_failed ex_env ''cpu''
          (ex_site ''2'' [[ex_bad_product, ex_product ''A'' ''1''],
                          [ex_product ''B'' ''2'', ex_bad_product, ex_product ''C'' ''3'']]))))
     = [[ex_part ''A'' ''1''], [ex_part ''B'' ''2'', ex_part ''C'' ''3'']]
   \<and> snd (snd (scrape ex_env None ''cpu''
       (without_failed ex_env ''cpu''
          (ex_site ''2'' [[ex_bad_product, ex_product ''A'' ''1''],
                          [ex_product ''B'' ''2'', ex_bad_product, ex_product ''C'' ''3'']]))))
     = Inr ()
   \<and> scrape_products ex_env None ''cpu'' [ex_bad_product, ex_product ''A'' ''1''] []
     = ([ErrorProcessingProduct ''no element''], [ex_part ''A'' ''1''])"
  using item_failure_isolated [of ex_env None "''cpu''"
      "ex_site ''2'' [[ex_bad_product, ex_product ''A'' ''1''],
                      [ex_product ''B'' ''2'', ex_bad_product, ex_product ''C'' ''3'']]"
      ex_bad_product "[]" "''no element''" "[]" "[ex_product ''A'' ''1'']"]
  by (simp add: ex_with_failures try_product_def replaceAll_nl_def)


section \<open>Pages\<close>

lemma scrape_pages_uncapped:
  assumes "\<forall>q. p \<le> q \<and> q \<le> N \<longrightarrow> (\<exists>els. load_page st q = Inr els)"
  shows "snd (scrape_pages E None endpoint st (Num (int N)) p)
         = (map (page_batch E None endpoint st) [p..<Suc N], Inr ())"
  using assms
proof (induction "Suc N - p" arbitrary: p)
  case 0
  then have "\<not> page_le p (Num (int N))" by simp
  with 0 show ?case
    by (simp add: scrape_pages.simps [of _ _ _ _ _ p])
next
  case (Suc k)
  then have le: "p \<le> N" by simp
  with Suc.prems obtain els where els: "load_page st p = Inr els" by blast
  have "k = Suc N - Suc p" using Suc.hyps(2) by simp
  moreover have "\<forall>q. Suc p \<le> q \<and> q \<le> N \<longrightarrow> (\<exists>els. load_page st q = Inr els)"
    using Suc.prems by simp
  ultimately have IH: "snd (scrape_pages E None endpoint st (Num (int N)) (Suc p))
         = (map (page_batch E None endpoint st) [Suc p..<Suc N], Inr ())"
    by (rule Suc.hyps(1))
  have "[p..<Suc N] = p # [Suc p..<Suc N]"
    using le by (simp add: upt_conv_Cons)
  with le els IH show ?case
    by (simp add: scrape_pages.simps [of _ _ _ _ _ p] page_batch_def case_prod_beta)
qed


text \<open>
  C6. With no limit, a pagination control that reads \<open>N\<close> and pages 1 to \<open>N\<close> that all
  load, the generator yields \<open>N\<close> batches, the batch of page \<open>p\<close> at position \<open>p\<close>, and
  returns; and the job, once past \<open>setViewport\<close> and its own \<open>getNumPages\<close>, writes
  \<open>endpoint.json\<close> holding the records of these batches in the same order.
\<close>

theorem one_batch_per_page:
  assumes "setRequestInterception st = Inr ()"
    and "getNumPages (paginationScrape st) = Inr (Num (int N))"
    and "\<forall>p. 1 \<le> p \<and> p \<le> N \<longrightarrow> (\<exists>els. load_page st p = Inr els)"
  shows "fst (snd (scrape E None endpoint st)) = map (page_batch E None endpoint st) [1..<Suc N]
       \<and> length (fst (snd (scrape E None endpoint st))) = N
       \<and> snd (snd (scrape E None endpoint st)) = Inr ()
       \<and> (setViewport st = Inr () \<and> getNumPages (paginationTask st) = Inr n \<longrightarrow>
            job_file (task E None endpoint st)
              = Some (json_path endpoint,
                      concat (map (page_batch E None endpoint st) [1..<Suc N])))"
proof -
  have pages: "snd (scrape_pages E None endpoint st (Num (int N)) 1)
         = (map (page_batch E None endpoint st) [1..<Suc N], Inr ())"
    using assms(3) by (rule scrape_pages_uncapped)
  have b: "fst (snd (scrape E None endpoint st)) = map (page_batch E None endpoint st) [1..<Suc N]"
    by (simp only: scrape_batches assms(1,2) pages sum.case fst_conv)
  have e: "snd (snd (scrape E None endpoint st)) = Inr ()"
    by (simp only: scrape_end assms(1,2) pages sum.case snd_conv)
  have f: "job_file (task E None endpoint st)
              = Some (json_path endpoint, concat (map (page_batch E None endpoint st) [1..<Suc N]))"
    if "setViewport st = Inr ()" and "getNumPages (paginationTask st) = Inr n"
  proof -
    obtain out where "scrape E None endpoint st
        = (out, map (page_batch E None endpoint st) [1..<Suc N], Inr ())"
      using b e by (cases "scrape E None endpoint st") auto
    with that show ?thesis
      by (simp add: task_def try_block_def push_all_concat)
  qed
  from b e f show ?thesis by simp
qed

theorem one_batch_per_page_witness:
  "fst (snd (scrape ex_env None ''cpu''
       (ex_site ''2'' [[ex_product ''A'' ''1'', ex_product ''B'' ''2''],
                       [ex_product ''C'' ''3'', ex_product ''D'' ''4'']])))
     = [page_batch ex_env None ''cpu''
          (ex_site ''2'' [[ex_product ''A'' ''1'', ex_product ''B'' ''2''],
                          [ex_product ''C'' ''3'', ex_product ''D'' ''4'']]) 1,
        page_batch ex_env None ''cpu''
          (ex_site ''2'' [[ex_product ''A'' ''1'', ex_product ''B'' ''2''],
                          [ex_product ''C'' ''3'', ex_product ''D'' ''4'']]) 2]
   \<and> job_file (task ex_env None ''cpu''
       (ex_site ''2'' [[ex_product ''A'' ''1'', ex_product ''B'' ''2''],
                       [ex_product ''C'' ''3'', ex_product ''D'' ''4'']]))
     = Some (''data-staging/json/cpu.json'',
             [ex_part ''A'' ''1'', ex_part ''B'' ''2'', ex_part ''C'' ''3'', ex_part ''D'' ''4''])"
proof -
  let ?st = "ex_site ''2'' [[ex_product ''A'' ''1'', ex_product ''B'' ''2''],
                            [ex_product ''C'' ''3'', ex_product ''D'' ''4'']]"
  have a: "setRequestInterception ?st = Inr ()"
    by (simp add: ex_site_def)
  have b: "getNumPages (paginationScrape ?st) = Inr (Num (int 2))"
    by (simp add: ex_eval)
  have c: "\<forall>p. 1 \<le> p \<and> p \<le> 2 \<longrightarrow> (\<exists>els. load_page ?st p = Inr els)"
    by (simp add: ex_load_page)
  have d: "setViewport ?st = Inr () \<and> getNumPages (paginationTask ?st) = Inr (Num 2)"
    by (simp add: ex_eval)
  have e: "[Suc 0..<3] = [Suc 0, 2]"
    by (simp add: upt_rec)
  have f: "page_batch ex_env None ''cpu'' ?st (Suc 0) = [ex_part ''A'' ''1'', ex_part ''B'' ''2'']"
          "page_batch ex_env None ''cpu'' ?st 2 = [ex_part ''C'' ''3'', ex_part ''D'' ''4'']"
    by (simp_all add: page_batch_def ex_load_page try_product_def replaceAll_nl_def)
  show ?thesis
    using one_batch_per_page [OF a b c, of ex_env "''cpu''" "Num 2"] d
    by (simp add: e f json_path_def STAGING_DIRECTORY_def)
qed


section \<open>The limit\<close>

text \<open>
  C2. Claim: with \<open>-n k\<close> no category's output exceeds \<open>k\<close> records, and enumeration stops
  at the \<open>k\<close>-th record without fetching a further page.
  The program compares the limit with the length of the batch of the current page (lines
  216 and 225), not with the number of records of the category. With \<open>-n 3\<close> and two pages
  of two products each, no page reaches 3: both pages are fetched and 4 records are
  yielded. With \<open>-n 0\<close> the test comes after the first product is pushed, and 1 record is
  yielded.
\<close>

theorem cap_exceeded_across_pages:
  "limit [''node'', ''scraper.js'', ''cpu'', ''-n'', ''3''] = Some 3
   \<and> fst (snd (scrape ex_env (Some 3) ''cpu''
       (ex_site ''2'' [[ex_product ''A'' ''1'', ex_product ''B'' ''2''],
                       [ex_product ''C'' ''3'', ex_product ''D'' ''4'']])))
     = [[ex_part ''A'' ''1'', ex_part ''B'' ''2''], [ex_part ''C'' ''3'', ex_part ''D'' ''4'']]
   \<and> length (concat (fst (snd (scrape ex_env (Some 3) ''cpu''
       (ex_site ''2'' [[ex_product ''A'' ''1'', ex_product ''B'' ''2''],
                       [ex_product ''C'' ''3'', ex_product ''D'' ''4'']]))))) = 4
   \<and> length (concat (fst (snd (scrape ex_env (Some 0) ''cpu''
       (ex_site ''2'' [[ex_product ''A'' ''1'', ex_product ''B'' ''2''],
                       [ex_product ''C'' ''3'', ex_product ''D'' ''4'']]))))) = 1"
  by (simp add: ex_two_pages_capped ex_two_pages_cap0 limit_def limit_of_def inputEndpoints_def
      js_parseInt_def digit_val_def is_js_space_def)


section \<open>A job that aborts\<close>

text \<open>
  C1, as the program has it. A job whose \<open>try\<close> block is left by a throw, with \<open>allParts\<close>
  holding what was pushed before it: nothing is written when \<open>allParts\<close> is empty, and
  otherwise exactly \<open>allParts\<close> is written to \<open>endpoint.incomplete.json\<close>, a name that
  differs from the one of a completed job. \<open>allParts\<close> is empty when the job's own
  \<open>getNumPages\<close> threw, and otherwise the records of the batches the generator yielded
  before it threw, in the order they were yielded. The job prints the warning of line 81
  and returns. The deadline of a job is met this way only where the closed page makes a
  call of the \<open>try\<close> block throw outside the \<open>try\<close> block of a product.
\<close>

theorem partial_failure_write:
  assumes "setViewport st = Inr ()"
    and "try_block E lmt endpoint st = (out, allParts, Inl error)"
  shows "job_file (task E lmt endpoint st)
           = (if allParts = [] then None
              else Some (''data-staging/json/'' @ endpoint @ ''.incomplete.json'', allParts))
       \<and> job_out (task E lmt endpoint st) = out @ [AbortedUnexpectedly endpoint error]
       \<and> job_end (task E lmt endpoint st) = Inr ()
       \<and> allParts = (case getNumPages (paginationTask st) of
                       Inl e \<Rightarrow> []
                     | Inr numPages \<Rightarrow> concat (fst (snd (scrape E lmt endpoint st))))
       \<and> ''data-staging/json/'' @ endpoint @ ''.incomplete.json'' \<noteq> json_path endpoint"
proof -
  have "allParts = (case getNumPages (paginationTask st) of
                       Inl e \<Rightarrow> []
                     | Inr numPages \<Rightarrow> concat (fst (snd (scrape E lmt endpoint st))))"
    using assms(2) by (auto simp: try_block_def push_all_concat split: sum.splits prod.splits)
  moreover have "''data-staging/json/'' @ endpoint @ ''.incomplete.json'' \<noteq> json_path endpoint"
    by (simp add: json_path_def STAGING_DIRECTORY_def)
  ultimately show ?thesis
    using assms by (simp add: task_def json_path_def STAGING_DIRECTORY_def)
qed

theorem partial_failure_write_witness:
  "job_file (task ex_env None ''cpu''
       (ex_site ''3'' [[ex_product ''A'' ''1'', ex_product ''B'' ''2''], [ex_product ''C'' ''3'']]))
     = Some (''data-staging/json/cpu.incomplete.json'',
             [ex_part ''A'' ''1'', ex_part ''B'' ''2'', ex_part ''C'' ''3''])
   \<and> job_file (task ex_env None ''cpu'' (ex_site ''1'' [])) = None"
  using partial_failure_write [OF _ ex_try_block_third] partial_failure_write [OF _ ex_try_block_first]
  by (simp add: ex_site_def)


text \<open>
  C1 as claimed includes the job that ends by its timeout. A job of two pages whose deadline
  passes while the second and last page is read, after its first product: the read of the
  product after it is rejected inside the \<open>try\<close> block of the product, the \<open>catch\<close> of
  line 211 takes it, the generator returns, and the two records pushed are written to
  \<open>cpu.json\<close>, the name of a completed job; nothing is written under the marked name and
  the warning of line 81 is not printed. When the deadline passes on the first page
  instead, the navigation to the second page throws and the marked name is used.
\<close>

theorem deadline_on_last_page_unmarked:
  "job_file (task ex_env None ''cpu''
       (deadline_during_items 2 1
          (ex_site ''2'' [[ex_product ''A'' ''1''],
                          [ex_product ''B'' ''2'', ex_product ''C'' ''3'']])))
     = Some (''data-staging/json/cpu.json'', [ex_part ''A'' ''1'', ex_part ''B'' ''2''])
   \<and> job_out (task ex_env None ''cpu''
       (deadline_during_items 2 1
          (ex_site ''2'' [[ex_product ''A'' ''1''],
                          [ex_product ''B'' ''2'', ex_product ''C'' ''3'']])))
     = [StartScrape ''cpu'', FoundPages (Num 2) ''cpu'',
        ProcessingPage 1 (Num 2) ''cpu'', ProcessingPage 2 (Num 2) ''cpu'',
        ErrorProcessingProduct ''Target closed'', FinishedScraping ''cpu'']
   \<and> job_file (task ex_env None ''cpu''
       (deadline_during_items 1 1
          (ex_site ''2'' [[ex_product ''A'' ''1'', ex_product ''B'' ''2''],
                          [ex_product ''C'' ''3'']])))
     = Some (''data-staging/json/cpu.incomplete.json'', [ex_part ''A'' ''1''])"
  by (simp add: task_def try_block_def ex_deadline_last_page ex_deadline_first_page push_all_def
      getNumPages_def js_parseInt_def digit_val_def is_js_space_def json_path_def
      STAGING_DIRECTORY_def deadline_reads
      ex_site_def [THEN arg_cong, of paginationTask] ex_site_def [THEN arg_cong, of setViewport])

section \<open>The pre-flight check\<close>

text \<open>
  C3, as the program has it. When the cluster has started and the pre-flight check fails,
  by a throw of \<open>page.goto\<close> or by the wait for the \<open>nav\<close> element timing out, no
  endpoint is queued and no file is written; in the second case the failure is printed.
  The run ends as every run does, and the exit code of the process is 0.
\<close>

theorem preflight_failure_stops_run:
  assumes "startup w = Inr ()"
    and "(\<exists>e. rootGoto w = Inl e) \<or> (\<exists>e. navWait w = Inl e)"
  shows "queued (program E w argv) = []
       \<and> written (program E w argv) = []
       \<and> exit_code (program E w argv) = 0
       \<and> (rootGoto w = Inr res \<longrightarrow> InitialFetchFailed res \<in> set (printed (program E w argv)))"
  using assms
  by (auto simp: program_def scrapeInParallel_def preflight_def exit_code_def split: sum.splits)

theorem preflight_failure_stops_run_witness:
  "queued (program ex_env (ex_world (Inl (Error ''net::ERR_NAME_NOT_RESOLVED'')) (Inr ()))
             [''node'', ''scraper.js'', ''cpu'']) = []
   \<and> written (program ex_env (ex_world (Inl (Error ''net::ERR_NAME_NOT_RESOLVED'')) (Inr ()))
             [''node'', ''scraper.js'', ''cpu'']) = []
   \<and> exit_code (program ex_env (ex_world (Inl (Error ''net::ERR_NAME_NOT_RESOLVED'')) (Inr ()))
             [''node'', ''scraper.js'', ''cpu'']) = 0"
  using preflight_failure_stops_run [of "ex_world (Inl (Error ''net::ERR_NAME_NOT_RESOLVED'')) (Inr ())"
      ex_env "[''node'', ''scraper.js'', ''cpu'']"]
  by (simp add: ex_world_def)


text \<open>
  C3 as claimed says the exit code is non-zero. For a site root that answers 503 and never
  shows the \<open>nav\<close> element, the failure is printed and the exit code is 0.
\<close>

theorem preflight_failure_exits_zero:
  "navWait (ex_world (Inr (Some 503)) (Inl (Error ''TimeoutError''))) = Inl (Error ''TimeoutError'')
   \<and> printed (program ex_env (ex_world (Inr (Some 503)) (Inl (Error ''TimeoutError'')))
               [''node'', ''scraper.js'', ''cpu'']) = [InitialFetchFailed (Some 503)]
   \<and> exit_code (program ex_env (ex_world (Inr (Some 503)) (Inl (Error ''TimeoutError'')))
               [''node'', ''scraper.js'', ''cpu'']) = 0"
  by (simp add: ex_world_def program_def scrapeInParallel_def preflight_def exit_code_def
      limit_of_def inputEndpoints_def)


end
